theory Spec2Isabelle
  imports Complex_Main
begin

section \<open>Python values, errors and operators\<close>

text \<open>
  The scoring functions of \<^verbatim>\<open>SMCALC.py\<close> take numbers or \<^verbatim>\<open>None\<close>. A number is
  modelled as an exact \<^typ>\<open>real\<close> (rounding, infinities and NaN of IEEE doubles are
  outside the model), an argument that may be \<^verbatim>\<open>None\<close> as a \<^typ>\<open>real option\<close>.
  Every operation that can raise returns a sum, \<open>Inl\<close> carrying the exception.
\<close>

datatype py_error = ZeroDivisionError | TypeError

text \<open>\<^verbatim>\<open>x / y\<close> on numbers: raises \<^verbatim>\<open>ZeroDivisionError\<close> when \<^verbatim>\<open>y == 0\<close>.\<close>

definition truediv :: "real \<Rightarrow> real \<Rightarrow> py_error + real" where
  "truediv x y = (if y = 0 then Inl ZeroDivisionError else Inr (x / y))"

text \<open>\<^verbatim>\<open>v * w\<close> where \<^verbatim>\<open>v\<close> may be \<^verbatim>\<open>None\<close> and \<^verbatim>\<open>w\<close> is a float literal.\<close>

definition py_mul :: "real option \<Rightarrow> real \<Rightarrow> py_error + real" where
  "py_mul v w = (case v of None \<Rightarrow> Inl TypeError | Some x \<Rightarrow> Inr (x * w))"

text \<open>Sequencing: the first exception raised ends the evaluation.\<close>

definition and_then :: "py_error + 'a \<Rightarrow> ('a \<Rightarrow> py_error + 'b) \<Rightarrow> py_error + 'b" where
  "and_then r f = (case r of Inl e \<Rightarrow> Inl e | Inr v \<Rightarrow> f v)"

text \<open>
  \<^verbatim>\<open>try: <body> except ZeroDivisionError: return d\<close>: only a
  \<^verbatim>\<open>ZeroDivisionError\<close> is caught, any other exception propagates.
\<close>

definition except_ZeroDivisionError :: "py_error + real \<Rightarrow> real \<Rightarrow> py_error + real" where
  "except_ZeroDivisionError body d =
     (case body of
        Inl ZeroDivisionError \<Rightarrow> Inr d
      | Inl e \<Rightarrow> Inl e
      | Inr v \<Rightarrow> Inr v)"

text \<open>\<^verbatim>\<open>d.get(k, default)\<close> on a dict whose values are numbers or \<^verbatim>\<open>None\<close>.\<close>

definition dict_get :: "(string \<rightharpoonup> real option) \<Rightarrow> string \<Rightarrow> real option \<Rightarrow> real option" where
  "dict_get d k dflt = (case d k of None \<Rightarrow> dflt | Some v \<Rightarrow> v)"

section \<open>The KPI normalizers\<close>

subsection \<open>Sales\<close>

definition sales_try :: "real \<Rightarrow> real \<Rightarrow> py_error + real" where
  "sales_try actual_sales forecast_sales =
     and_then (truediv actual_sales forecast_sales) (\<lambda>result.
     Inr (min result 1.0))"

definition calculate_sales_performance :: "real option \<Rightarrow> real option \<Rightarrow> py_error + real" where
  "calculate_sales_performance actual_sales forecast_sales =
     (case forecast_sales of
        None \<Rightarrow> Inr 0.0
      | Some f \<Rightarrow>
          if f = 0 then Inr 0.0
          else (case actual_sales of
                  None \<Rightarrow> Inr 0.0
                | Some a \<Rightarrow> except_ZeroDivisionError (sales_try a f) 0.0))"

subsection \<open>Wastage\<close>

definition wastage_try :: "real \<Rightarrow> real \<Rightarrow> real \<Rightarrow> py_error + real" where
  "wastage_try actual_wastage actual_sales wastage_target_amount =
     and_then (if actual_sales \<noteq> 0 then truediv actual_wastage actual_sales else Inr 0)
       (\<lambda>wastage_percentage.
     if actual_wastage \<le> wastage_target_amount then Inr 1.0
     else if wastage_target_amount = 0 then Inr 0.0
     else if actual_wastage \<ge> wastage_target_amount * 1.2 then Inr 0.0
     else
       (let denominator = wastage_target_amount * 20 in
        if denominator = 0 then Inr 0.0
        else
          and_then (truediv 100 denominator) (\<lambda>q.
          let accepted = 1.0 - ((actual_wastage - wastage_target_amount) * q) in
          Inr (max 0.0 (min accepted 1.0)))))"

definition calculate_wastage_performance ::
    "real option \<Rightarrow> real option \<Rightarrow> real option \<Rightarrow> py_error + real" where
  "calculate_wastage_performance actual_wastage actual_sales wastage_target_amount =
     (case actual_wastage of
        None \<Rightarrow> Inr 0.0
      | Some a \<Rightarrow>
          (case actual_sales of
             None \<Rightarrow> Inr 0.0
           | Some s \<Rightarrow>
               (case wastage_target_amount of
                  None \<Rightarrow> Inr 0.0
                | Some t \<Rightarrow> except_ZeroDivisionError (wastage_try a s t) 0.0)))"

subsection \<open>OPEX\<close>

definition opex_try :: "real \<Rightarrow> real \<Rightarrow> real \<Rightarrow> py_error + real" where
  "opex_try actual_opex target_opex actual_sales =
     (if actual_sales = 0 then Inr 0.0
      else
        and_then (truediv target_opex actual_sales) (\<lambda>opex_target_percentage.
        and_then (truediv actual_opex actual_sales) (\<lambda>actual_opex_percentage.
        if actual_opex_percentage \<le> opex_target_percentage then Inr 1.0
        else if opex_target_percentage = 0 then Inr 0.0
        else if actual_opex_percentage \<ge> opex_target_percentage * 1.2 then Inr 0.0
        else
          (let denominator = opex_target_percentage * 20 in
           if denominator = 0 then Inr 0.0
           else
             and_then (truediv 100 denominator) (\<lambda>q.
             let accepted = 1.0 - ((actual_opex_percentage - opex_target_percentage) * q) in
             Inr (max 0.0 (min accepted 1.0)))))))"

definition calculate_opex_performance ::
    "real option \<Rightarrow> real option \<Rightarrow> real option \<Rightarrow> py_error + real" where
  "calculate_opex_performance actual_opex target_opex actual_sales =
     (case actual_opex of
        None \<Rightarrow> Inr 0.0
      | Some a \<Rightarrow>
          (case target_opex of
             None \<Rightarrow> Inr 0.0
           | Some t \<Rightarrow>
               (case actual_sales of
                  None \<Rightarrow> Inr 0.0
                | Some s \<Rightarrow> except_ZeroDivisionError (opex_try a t s) 0.0)))"

subsection \<open>Turnover\<close>

definition turnover_try :: "real \<Rightarrow> real \<Rightarrow> py_error + real" where
  "turnover_try actual_separations target_separations =
     (if actual_separations \<le> target_separations then Inr 1.0
      else if target_separations = 0 then Inr 0.0
      else if actual_separations \<ge> target_separations * 1.2 then Inr 0.0
      else
        and_then (truediv actual_separations target_separations) (\<lambda>ratio.
        let performance = 1.0 - (ratio - 1.0) * 5.0 in
        Inr (max 0.0 (min performance 1.0))))"

definition calculate_turnover_performance :: "real option \<Rightarrow> real option \<Rightarrow> py_error + real" where
  "calculate_turnover_performance actual_separations target_separations =
     (case actual_separations of
        None \<Rightarrow> Inr 0.0
      | Some a \<Rightarrow>
          (case target_separations of
             None \<Rightarrow> Inr 0.0
           | Some t \<Rightarrow> except_ZeroDivisionError (turnover_try a t) 0.0))"

subsection \<open>Mystery shopper, Excellence check, Behaviour\<close>

definition mystery_shopper_try :: "real \<Rightarrow> py_error + real" where
  "mystery_shopper_try actual_value =
     and_then (truediv actual_value 100.0) (\<lambda>result.
     Inr (min result 1.0))"

definition calculate_mystery_shopper_performance :: "real option \<Rightarrow> py_error + real" where
  "calculate_mystery_shopper_performance actual_value =
     (case actual_value of
        None \<Rightarrow> Inr 0.0
      | Some x \<Rightarrow> except_ZeroDivisionError (mystery_shopper_try x) 0.0)"

definition excellence_try :: "real \<Rightarrow> py_error + real" where
  "excellence_try actual_value =
     and_then (truediv actual_value 100.0) (\<lambda>result.
     Inr (min result 1.0))"

definition calculate_excellence_performance :: "real option \<Rightarrow> py_error + real" where
  "calculate_excellence_performance actual_value =
     (case actual_value of
        None \<Rightarrow> Inr 0.0
      | Some x \<Rightarrow> except_ZeroDivisionError (excellence_try x) 0.0)"

definition behavioural_try :: "real \<Rightarrow> py_error + real" where
  "behavioural_try actual_value =
     and_then (truediv actual_value 5.0) (\<lambda>result.
     Inr (min result 1.0))"

definition calculate_behavioural_performance :: "real option \<Rightarrow> py_error + real" where
  "calculate_behavioural_performance actual_value =
     (case actual_value of
        None \<Rightarrow> Inr 0.0
      | Some x \<Rightarrow> except_ZeroDivisionError (behavioural_try x) 0.0)"

section \<open>The aggregator\<close>

text \<open>
  \<^verbatim>\<open>kpi_results\<close> is a dict from KPI name to a score or \<^verbatim>\<open>None\<close> (the caller stores
  \<^verbatim>\<open>None\<close> for a KPI whose target or actual is missing). The lookups default a
  missing key to \<^verbatim>\<open>0\<close>; the seven products are evaluated in the source's order.
\<close>

definition calculate_final_performance :: "(string \<rightharpoonup> real option) \<Rightarrow> py_error + real" where
  "calculate_final_performance kpi_results =
     and_then (py_mul (dict_get kpi_results ''Sales'' (Some 0)) 0.30) (\<lambda>sales_perf.
     and_then (py_mul (dict_get kpi_results ''Wastage'' (Some 0)) 0.30) (\<lambda>wastage_perf.
     and_then (py_mul (dict_get kpi_results ''OPEX'' (Some 0)) 0.20) (\<lambda>opex_perf.
     and_then (py_mul (dict_get kpi_results ''Turnover'' (Some 0)) 0.20) (\<lambda>turnover_perf.
     and_then (py_mul (dict_get kpi_results ''Excellence check'' (Some 0)) 0.20) (\<lambda>excellence_perf.
     and_then (py_mul (dict_get kpi_results ''Mystery shopper'' (Some 0)) 0.20) (\<lambda>mystery_shopper_perf.
     and_then (py_mul (dict_get kpi_results ''Behaviour'' (Some 0)) 0.10) (\<lambda>behavioural_perf.
     let final_score = ((sales_perf + wastage_perf + opex_perf + turnover_perf) * 0.5) +
                       excellence_perf + mystery_shopper_perf + behavioural_perf
     in Inr final_score)))))))"

section \<open>Predicates on outcomes\<close>

text \<open>The call returned a number (no exception left the function).\<close>

definition returns :: "py_error + real \<Rightarrow> bool" where
  "returns r = (case r of Inl e \<Rightarrow> False | Inr v \<Rightarrow> True)"

text \<open>The call returned a score in the closed interval from 0 to 1.\<close>

definition in_unit_interval :: "py_error + real \<Rightarrow> bool" where
  "in_unit_interval r = (case r of Inl e \<Rightarrow> False | Inr v \<Rightarrow> 0 \<le> v \<and> v \<le> 1)"

text \<open>The call returned a score of at most 1.\<close>

definition at_most_one :: "py_error + real \<Rightarrow> bool" where
  "at_most_one r = (case r of Inl e \<Rightarrow> False | Inr v \<Rightarrow> v \<le> 1)"

text \<open>Both calls returned, and the first score is at least the second.\<close>

definition score_geq :: "py_error + real \<Rightarrow> py_error + real \<Rightarrow> bool" where
  "score_geq r1 r2 =
     (case r1 of Inl e \<Rightarrow> False
      | Inr v1 \<Rightarrow> (case r2 of Inl e \<Rightarrow> False | Inr v2 \<Rightarrow> v2 \<le> v1))"

text \<open>The score a dict contributes for a key: 0 when the key is missing.\<close>

definition score_or_zero :: "(string \<rightharpoonup> real option) \<Rightarrow> string \<Rightarrow> real" where
  "score_or_zero d k = (case d k of Some (Some v) \<Rightarrow> v | _ \<Rightarrow> 0.0)"

section \<open>The normalizers as the specification words them\<close>

text \<open>
  The Wastage normalizer of the specification: 0 when an input is absent, 1 up to the
  target, 0 against a zero target or from 1.2 times the target on, and between the two
  the linear penalty, clamped.
\<close>

definition wastage_spec :: "real option \<Rightarrow> real option \<Rightarrow> real option \<Rightarrow> real" where
  "wastage_spec actual_wastage_amount actual_sales_amount wastage_target_amount =
     (case (actual_wastage_amount, actual_sales_amount, wastage_target_amount) of
        (Some a, Some s, Some t) \<Rightarrow>
          if a \<le> t then 1.0
          else if t = 0 then 0.0
          else if a \<ge> t * 1.2 then 0.0
          else max 0.0 (min 1.0 (1.0 - (a - t) * (100 / (t * 20))))
      | _ \<Rightarrow> 0.0)"

text \<open>The Turnover normalizer of the specification, on two numbers.\<close>

definition turnover_spec :: "real \<Rightarrow> real \<Rightarrow> real" where
  "turnover_spec actual target =
     (if actual \<le> target then 1.0
      else if target = 0 then 0.0
      else if actual \<ge> target * 1.2 then 0.0
      else max 0.0 (min 1.0 (1.0 - ((actual / target) - 1.0) * 5.0)))"

section \<open>Closed forms of the normalizers\<close>

text \<open>
  Each \<^verbatim>\<open>try\<close> block evaluated: the guards in front of every division make the
  quotient defined, so the block yields a number given by the branch taken.
\<close>

lemma truediv_nonzero: "y \<noteq> 0 \<Longrightarrow> truediv x y = Inr (x / y)"
  by (simp add: truediv_def)

lemma and_then_Inr: "and_then (Inr v) f = f v"
  by (simp add: and_then_def)

lemma except_Inr: "except_ZeroDivisionError (Inr v) d = Inr v"
  by (simp add: except_ZeroDivisionError_def)

lemma sales_try_value:
  "f \<noteq> 0 \<Longrightarrow> sales_try a f = Inr (min (a / f) 1)"
  by (simp add: sales_try_def truediv_nonzero and_then_Inr)

lemma wastage_try_value:
  "wastage_try a s t =
     Inr (if a \<le> t then 1 else if t = 0 then 0 else if t * 1.2 \<le> a then 0
          else max 0 (min (1 - (a - t) * (100 / (t * 20))) 1))"
  by (simp add: wastage_try_def truediv_def and_then_def Let_def)

lemma opex_try_value:
  "opex_try a t s =
     Inr (if s = 0 then 0
          else if a / s \<le> t / s then 1 else if t / s = 0 then 0
          else if t / s * 1.2 \<le> a / s then 0
          else max 0 (min (1 - (a / s - t / s) * (100 / (t / s * 20))) 1))"
  by (simp add: opex_try_def truediv_def and_then_def Let_def)

lemma turnover_try_value:
  "turnover_try a t =
     Inr (if a \<le> t then 1 else if t = 0 then 0 else if t * 1.2 \<le> a then 0
          else max 0 (min (1 - (a / t - 1) * 5) 1))"
  by (simp add: turnover_try_def truediv_def and_then_def Let_def)

lemma mystery_shopper_try_value: "mystery_shopper_try x = Inr (min (x / 100) 1)"
  by (simp add: mystery_shopper_try_def truediv_def and_then_def)

lemma excellence_try_value: "excellence_try x = Inr (min (x / 100) 1)"
  by (simp add: excellence_try_def truediv_def and_then_def)

lemma behavioural_try_value: "behavioural_try x = Inr (min (x / 5) 1)"
  by (simp add: behavioural_try_def truediv_def and_then_def)

lemma wastage_value:
  "calculate_wastage_performance (Some a) (Some s) (Some t) =
     Inr (if a \<le> t then 1 else if t = 0 then 0 else if t * 1.2 \<le> a then 0
          else max 0 (min (1 - (a - t) * (100 / (t * 20))) 1))"
  by (simp only: calculate_wastage_performance_def option.case wastage_try_value except_Inr)

lemma opex_value:
  "calculate_opex_performance (Some a) (Some t) (Some s) =
     Inr (if s = 0 then 0
          else if a / s \<le> t / s then 1 else if t / s = 0 then 0
          else if t / s * 1.2 \<le> a / s then 0
          else max 0 (min (1 - (a / s - t / s) * (100 / (t / s * 20))) 1))"
  by (simp only: calculate_opex_performance_def option.case opex_try_value except_Inr)

lemma turnover_value:
  "calculate_turnover_performance (Some a) (Some t) =
     Inr (if a \<le> t then 1 else if t = 0 then 0 else if t * 1.2 \<le> a then 0
          else max 0 (min (1 - (a / t - 1) * 5) 1))"
  by (simp only: calculate_turnover_performance_def option.case turnover_try_value except_Inr)

lemma sales_value:
  "f \<noteq> 0 \<Longrightarrow> calculate_sales_performance (Some a) (Some f) = Inr (min (a / f) 1)"
  by (simp add: calculate_sales_performance_def sales_try_value except_Inr)

lemma sales_value_zero:
  "calculate_sales_performance (Some a) (Some 0) = Inr 0"
  by (simp add: calculate_sales_performance_def)

lemma mystery_shopper_value:
  "calculate_mystery_shopper_performance (Some x) = Inr (min (x / 100) 1)"
  by (simp add: calculate_mystery_shopper_performance_def mystery_shopper_try_value except_Inr)

lemma excellence_value:
  "calculate_excellence_performance (Some x) = Inr (min (x / 100) 1)"
  by (simp add: calculate_excellence_performance_def excellence_try_value except_Inr)

lemma behavioural_value:
  "calculate_behavioural_performance (Some x) = Inr (min (x / 5) 1)"
  by (simp add: calculate_behavioural_performance_def behavioural_try_value except_Inr)

section \<open>Range of the scores\<close>

text \<open>
  C1 (as amended). For every numeric input the Wastage, OPEX and Turnover normalizers
  return a score in the closed interval from 0 to 1. The Sales, Mystery shopper,
  Excellence check and Behaviour normalizers cap the score at 1 only: their score is at
  most 1 for every numeric input, and it is at least 0 exactly when the capped ratio is
  not negative (Sales: the target is 0 or actual / target is at least 0; the other
  three: the actual value is at least 0).
\<close>

theorem normalizer_ranges:
  "in_unit_interval (calculate_wastage_performance (Some a) (Some s) (Some t))
   \<and> in_unit_interval (calculate_opex_performance (Some a) (Some t) (Some s))
   \<and> in_unit_interval (calculate_turnover_performance (Some a) (Some t))
   \<and> at_most_one (calculate_sales_performance (Some a) (Some f))
   \<and> at_most_one (calculate_mystery_shopper_performance (Some x))
   \<and> at_most_one (calculate_excellence_performance (Some x))
   \<and> at_most_one (calculate_behavioural_performance (Some x))
   \<and> (in_unit_interval (calculate_sales_performance (Some a) (Some f)) = (f = 0 \<or> 0 \<le> a / f))
   \<and> (in_unit_interval (calculate_mystery_shopper_performance (Some x)) = (0 \<le> x))
   \<and> (in_unit_interval (calculate_excellence_performance (Some x)) = (0 \<le> x))
   \<and> (in_unit_interval (calculate_behavioural_performance (Some x)) = (0 \<le> x))"
proof -
  have w: "in_unit_interval (calculate_wastage_performance (Some a) (Some s) (Some t))"
    by (simp add: wastage_value in_unit_interval_def)
  have ox: "in_unit_interval (calculate_opex_performance (Some a) (Some t) (Some s))"
    by (simp add: opex_value in_unit_interval_def)
  have tn: "in_unit_interval (calculate_turnover_performance (Some a) (Some t))"
    by (simp add: turnover_value in_unit_interval_def)
  have sl: "at_most_one (calculate_sales_performance (Some a) (Some f))"
    by (cases "f = 0") (simp_all add: sales_value sales_value_zero at_most_one_def)
  have sl': "in_unit_interval (calculate_sales_performance (Some a) (Some f)) = (f = 0 \<or> 0 \<le> a / f)"
    by (cases "f = 0") (simp_all add: sales_value sales_value_zero in_unit_interval_def)
  show ?thesis
    using w ox tn sl sl'
    by (simp add: mystery_shopper_value excellence_value behavioural_value
        at_most_one_def in_unit_interval_def)
qed

theorem normalizer_ranges_witness:
  "calculate_wastage_performance (Some (- 3)) (Some 0) (Some (- 4)) = Inr 0
   \<and> in_unit_interval (calculate_wastage_performance (Some (- 3)) (Some 0) (Some (- 4)))
   \<and> in_unit_interval (calculate_opex_performance (Some (- 3)) (Some (- 4)) (Some 0))
   \<and> in_unit_interval (calculate_turnover_performance (Some (- 3)) (Some (- 4)))
   \<and> calculate_sales_performance (Some (- 3)) (Some 2) = Inr (- 3 / 2)
   \<and> at_most_one (calculate_sales_performance (Some (- 3)) (Some 2))
   \<and> \<not> in_unit_interval (calculate_sales_performance (Some (- 3)) (Some 2))
   \<and> in_unit_interval (calculate_mystery_shopper_performance (Some 50))
   \<and> in_unit_interval (calculate_excellence_performance (Some 50))
   \<and> in_unit_interval (calculate_behavioural_performance (Some 50))"
  using normalizer_ranges [of "- 3" 0 "- 4" 2 50]
  by (simp add: wastage_value sales_value)

text \<open>
  The range claim fails as first stated: with actual sales \<open>-1\<close> against a target of
  \<open>1\<close> the Sales normalizer returns \<open>-1\<close>, below the interval.
\<close>

theorem sales_range_counterexample:
  "calculate_sales_performance (Some (- 1)) (Some 1) = Inr (- 1)
   \<and> \<not> in_unit_interval (calculate_sales_performance (Some (- 1)) (Some 1))"
  by (simp add: sales_value in_unit_interval_def)

section \<open>The aggregator on missing and absent entries\<close>

lemma aggregator_None_any:
  "kpi_results ''Sales'' = Some None \<Longrightarrow>
   calculate_final_performance kpi_results = Inl TypeError"
  by (simp add: calculate_final_performance_def dict_get_def py_mul_def and_then_def)

lemma dict_get_score:
  "d k \<noteq> Some None \<Longrightarrow> py_mul (dict_get d k (Some 0)) w = Inr (score_or_zero d k * w)"
  by (auto simp: dict_get_def py_mul_def score_or_zero_def split: option.splits)

lemma aggregator_numeric:
  assumes "\<forall>k. kpi_results k \<noteq> Some None"
  shows "calculate_final_performance kpi_results =
     Inr (((score_or_zero kpi_results ''Sales'' * 0.30
            + score_or_zero kpi_results ''Wastage'' * 0.30
            + score_or_zero kpi_results ''OPEX'' * 0.20
            + score_or_zero kpi_results ''Turnover'' * 0.20) * 0.5)
          + score_or_zero kpi_results ''Excellence check'' * 0.20
          + score_or_zero kpi_results ''Mystery shopper'' * 0.20
          + score_or_zero kpi_results ''Behaviour'' * 0.10)"
proof -
  have m: "py_mul (dict_get kpi_results k (Some 0)) w = Inr (score_or_zero kpi_results k * w)"
    for k w using assms by (simp add: dict_get_score)
  show ?thesis
    unfolding calculate_final_performance_def m and_then_Inr Let_def ..
qed

text \<open>
  C2. The aggregator is claimed never to fail and to count a missing or absent KPI
  result as 0. A missing key is defaulted (\<open>aggregator_numeric\<close>), but an entry that is
  present with the value \<^verbatim>\<open>None\<close> is not: on the dict \<^verbatim>\<open>{"Sales": None}\<close> the product
  \<^verbatim>\<open>None * 0.30\<close> raises \<^verbatim>\<open>TypeError\<close> and no score is returned.
\<close>

theorem aggregator_None_entry:
  "calculate_final_performance [''Sales'' \<mapsto> None] = Inl TypeError"
  by (simp add: calculate_final_performance_def dict_get_def py_mul_def and_then_def)

section \<open>Wastage and Turnover follow their specification\<close>

text \<open>
  C3. For every input the wastage normalizer returns: 0 if the actual wastage amount,
  the actual sales amount or the wastage target amount is absent; else 1 if
  actual \<open>\<le>\<close> target; else 0 if the target is 0; else 0 if actual \<open>\<ge>\<close> target * 1.2;
  otherwise \<open>1 - (actual - target) * (100 / (target * 20))\<close> clamped to the
  interval from 0 to 1.
\<close>

theorem wastage_refines_spec:
  "calculate_wastage_performance aw sa wt = Inr (wastage_spec aw sa wt)"
proof (cases aw)
  case None
  then show ?thesis by (simp add: calculate_wastage_performance_def wastage_spec_def)
next
  case a: (Some a)
  show ?thesis
  proof (cases sa)
    case None
    with a show ?thesis by (simp add: calculate_wastage_performance_def wastage_spec_def)
  next
    case s: (Some s)
    show ?thesis
    proof (cases wt)
      case None
      with a s show ?thesis by (simp add: calculate_wastage_performance_def wastage_spec_def)
    next
      case (Some t)
      with a s show ?thesis
        by (simp add: wastage_value wastage_spec_def min.commute)
    qed
  qed
qed

text \<open>
  C4. With both separations present the turnover normalizer returns: 1 if
  actual \<open>\<le>\<close> target; else 0 if the target is 0; else 0 if actual \<open>\<ge>\<close> target * 1.2;
  otherwise \<open>1 - ((actual / target) - 1) * 5\<close> clamped to the interval from 0 to 1.
\<close>

theorem turnover_refines_spec:
  "calculate_turnover_performance (Some a) (Some t) = Inr (turnover_spec a t)"
  by (simp add: turnover_value turnover_spec_def min.commute)

section \<open>OPEX is the Wastage policy on percentages of sales\<close>

text \<open>
  C5. For numeric actual OPEX \<open>a\<close>, target OPEX \<open>t\<close> and actual sales \<open>s\<close> other than 0,
  the OPEX normalizer returns what the wastage normalizer returns on the amount
  \<open>a / s\<close>, the sales \<open>s\<close> and the target \<open>t / s\<close>.
\<close>

theorem opex_is_wastage_on_percentages:
  "s \<noteq> 0 \<Longrightarrow>
   calculate_opex_performance (Some a) (Some t) (Some s) =
   calculate_wastage_performance (Some (a / s)) (Some s) (Some (t / s))"
  by (simp only: opex_value wastage_value if_False)

theorem opex_is_wastage_on_percentages_witness:
  "(1000::real) \<noteq> 0 \<and>
   calculate_opex_performance (Some 110) (Some 100) (Some 1000) =
   calculate_wastage_performance (Some (110 / 1000)) (Some 1000) (Some (100 / 1000)) \<and>
   calculate_opex_performance (Some 110) (Some 100) (Some 1000) = Inr (1 / 2)"
  using opex_is_wastage_on_percentages [of 1000 110 100]
  by (simp add: opex_value)

section \<open>Monotonicity in the actual value\<close>

lemma penalty_mono:
  fixes t a1 a2 :: real
  assumes "0 < t" "a1 \<le> a2"
  shows "max 0 (min (1 - (a2 - t) * (100 / (t * 20))) 1)
       \<le> max 0 (min (1 - (a1 - t) * (100 / (t * 20))) 1)"
proof -
  have "0 \<le> 100 / (t * 20)" using assms(1) by simp
  with assms(2) have "(a1 - t) * (100 / (t * 20)) \<le> (a2 - t) * (100 / (t * 20))"
    by (intro mult_right_mono) simp_all
  then show ?thesis by (simp add: max_def min_def)
qed

lemma penalty_range:
  fixes x :: real
  shows "0 \<le> max 0 (min x 1)" "max 0 (min x 1) \<le> 1"
  by simp_all

lemma wastage_curve_mono:
  fixes t a1 a2 :: real
  assumes "0 < t" "a1 \<le> a2"
  shows "(if a2 \<le> t then 1 else if t = 0 then 0 else if t * 1.2 \<le> a2 then 0
          else max 0 (min (1 - (a2 - t) * (100 / (t * 20))) 1))
       \<le> (if a1 \<le> t then 1 else if t = 0 then 0 else if t * 1.2 \<le> a1 then (0::real)
          else max 0 (min (1 - (a1 - t) * (100 / (t * 20))) 1))"
proof (cases "a1 \<le> t")
  case True
  then show ?thesis by (simp add: penalty_range)
next
  case lo: False
  with assms have a2t: "\<not> a2 \<le> t" by simp
  show ?thesis
  proof (cases "t * 1.2 \<le> a2")
    case True
    with lo a2t assms show ?thesis by (simp add: penalty_range)
  next
    case False
    with assms have "\<not> t * 1.2 \<le> a1" by simp
    with False lo a2t assms show ?thesis using penalty_mono [OF assms] by simp
  qed
qed

text \<open>
  C6. For a fixed positive target, the wastage normalizer (any fixed numeric sales) and
  the OPEX normalizer (fixed positive sales) do not increase in the actual value: for
  numeric actuals \<open>a1 \<le> a2\<close> the score at \<open>a1\<close> is at least the score at \<open>a2\<close>.
\<close>

theorem wastage_opex_monotone:
  assumes "0 < t" and "a1 \<le> a2"
  shows "score_geq (calculate_wastage_performance (Some a1) (Some s) (Some t))
                   (calculate_wastage_performance (Some a2) (Some s) (Some t))
       \<and> (0 < s' \<longrightarrow>
          score_geq (calculate_opex_performance (Some a1) (Some t) (Some s'))
                    (calculate_opex_performance (Some a2) (Some t) (Some s')))"
proof (intro conjI impI)
  show "score_geq (calculate_wastage_performance (Some a1) (Some s) (Some t))
                  (calculate_wastage_performance (Some a2) (Some s) (Some t))"
    unfolding wastage_value score_geq_def sum.case
    by (rule wastage_curve_mono [OF assms])
next
  assume s: "0 < s'"
  then have t': "0 < t / s'" and a': "a1 / s' \<le> a2 / s'"
    using assms by (simp_all add: divide_right_mono)
  from s have "s' \<noteq> 0" by simp
  then have o: "calculate_opex_performance (Some a) (Some t) (Some s') =
      calculate_wastage_performance (Some (a / s')) (Some s') (Some (t / s'))" for a
    by (simp only: opex_value wastage_value if_False)
  show "score_geq (calculate_opex_performance (Some a1) (Some t) (Some s'))
                  (calculate_opex_performance (Some a2) (Some t) (Some s'))"
    unfolding o wastage_value score_geq_def sum.case
    by (rule wastage_curve_mono [OF t' a'])
qed

theorem wastage_opex_monotone_witness:
  "(0::real) < 100 \<and> (105::real) \<le> 110 \<and> (0::real) < 1000
   \<and> calculate_wastage_performance (Some 105) (Some 1000) (Some 100) = Inr (3 / 4)
   \<and> calculate_wastage_performance (Some 110) (Some 1000) (Some 100) = Inr (1 / 2)
   \<and> score_geq (calculate_wastage_performance (Some 105) (Some 1000) (Some 100))
                (calculate_wastage_performance (Some 110) (Some 1000) (Some 100))
   \<and> score_geq (calculate_opex_performance (Some 105) (Some 100) (Some 1000))
                (calculate_opex_performance (Some 110) (Some 100) (Some 1000))"
  using wastage_opex_monotone [of 100 105 110 1000 1000]
  by (simp add: wastage_value)

section \<open>Point values of the aggregator\<close>

text \<open>
  C7. In exact arithmetic the aggregator returns 1 when all seven KPI results are 1,
  0 when all seven are 0, and 0.15 when Sales is 1 and the other six are 0.
\<close>

theorem aggregator_point_values:
  "calculate_final_performance
     [''Sales'' \<mapsto> Some 1.0, ''Wastage'' \<mapsto> Some 1.0, ''OPEX'' \<mapsto> Some 1.0,
      ''Turnover'' \<mapsto> Some 1.0, ''Mystery shopper'' \<mapsto> Some 1.0,
      ''Excellence check'' \<mapsto> Some 1.0, ''Behaviour'' \<mapsto> Some 1.0] = Inr 1.0
   \<and> calculate_final_performance
     [''Sales'' \<mapsto> Some 0.0, ''Wastage'' \<mapsto> Some 0.0, ''OPEX'' \<mapsto> Some 0.0,
      ''Turnover'' \<mapsto> Some 0.0, ''Mystery shopper'' \<mapsto> Some 0.0,
      ''Excellence check'' \<mapsto> Some 0.0, ''Behaviour'' \<mapsto> Some 0.0] = Inr 0.0
   \<and> calculate_final_performance
     [''Sales'' \<mapsto> Some 1.0, ''Wastage'' \<mapsto> Some 0.0, ''OPEX'' \<mapsto> Some 0.0,
      ''Turnover'' \<mapsto> Some 0.0, ''Mystery shopper'' \<mapsto> Some 0.0,
      ''Excellence check'' \<mapsto> Some 0.0, ''Behaviour'' \<mapsto> Some 0.0] = Inr 0.15"
  by (simp add: calculate_final_performance_def dict_get_def py_mul_def and_then_def)

section \<open>Totality of the normalizers\<close>

lemma sales_returns: "returns (calculate_sales_performance actual forecast)"
  by (cases actual; cases forecast)
    (simp_all add: calculate_sales_performance_def sales_try_value except_Inr returns_def)

lemma wastage_returns: "returns (calculate_wastage_performance aw sa wt)"
  by (cases aw; cases sa; cases wt)
    (simp_all add: calculate_wastage_performance_def wastage_try_value except_Inr returns_def)

lemma opex_returns: "returns (calculate_opex_performance ao tgt sa)"
  by (cases ao; cases tgt; cases sa)
    (simp_all add: calculate_opex_performance_def opex_try_value except_Inr returns_def)

lemma turnover_returns: "returns (calculate_turnover_performance ac tg)"
  by (cases ac; cases tg)
    (simp_all add: calculate_turnover_performance_def turnover_try_value except_Inr returns_def)

lemma mystery_shopper_returns: "returns (calculate_mystery_shopper_performance v)"
  by (cases v)
    (simp_all add: calculate_mystery_shopper_performance_def mystery_shopper_try_value
      except_Inr returns_def)

lemma excellence_returns: "returns (calculate_excellence_performance v)"
  by (cases v)
    (simp_all add: calculate_excellence_performance_def excellence_try_value
      except_Inr returns_def)

lemma behavioural_returns: "returns (calculate_behavioural_performance v)"
  by (cases v)
    (simp_all add: calculate_behavioural_performance_def behavioural_try_value
      except_Inr returns_def)

text \<open>
  C8. Every normalizer returns a number for every input, absent, zero or negative: no
  exception leaves it. Moreover no \<^verbatim>\<open>try\<close> block raises where it is entered (the Sales
  block is entered only with a target other than 0, the other blocks with any numbers),
  so no \<^verbatim>\<open>except ZeroDivisionError\<close> handler is ever taken.
\<close>

theorem normalizers_total:
  "returns (calculate_sales_performance actual forecast)
   \<and> returns (calculate_wastage_performance aw sw tw)
   \<and> returns (calculate_opex_performance ao tgo so)
   \<and> returns (calculate_turnover_performance atn ttn)
   \<and> returns (calculate_mystery_shopper_performance vm)
   \<and> returns (calculate_excellence_performance ve)
   \<and> returns (calculate_behavioural_performance vb)
   \<and> (f \<noteq> 0 \<longrightarrow> returns (sales_try a f))
   \<and> returns (wastage_try a s t)
   \<and> returns (opex_try a t s)
   \<and> returns (turnover_try a t)
   \<and> returns (mystery_shopper_try x)
   \<and> returns (excellence_try x)
   \<and> returns (behavioural_try x)"
proof -
  have "f \<noteq> 0 \<longrightarrow> returns (sales_try a f)"
    by (simp add: sales_try_value returns_def)
  moreover have "returns (wastage_try a s t)"
    by (simp only: wastage_try_value returns_def sum.case)
  moreover have "returns (opex_try a t s)"
    by (simp only: opex_try_value returns_def sum.case)
  moreover have "returns (turnover_try a t)"
    by (simp only: turnover_try_value returns_def sum.case)
  moreover have "returns (mystery_shopper_try x)"
    by (simp only: mystery_shopper_try_value returns_def sum.case)
  moreover have "returns (excellence_try x)"
    by (simp only: excellence_try_value returns_def sum.case)
  moreover have "returns (behavioural_try x)"
    by (simp only: behavioural_try_value returns_def sum.case)
  ultimately show ?thesis
    by (simp only: sales_returns wastage_returns opex_returns turnover_returns
        mystery_shopper_returns excellence_returns behavioural_returns simp_thms)
qed

theorem normalizers_total_witness:
  "calculate_sales_performance (Some (- 5)) (Some 0) = Inr 0
   \<and> calculate_wastage_performance (Some 3) (Some 0) (Some 0) = Inr 0
   \<and> calculate_opex_performance (Some 3) None (Some 0) = Inr 0
   \<and> calculate_turnover_performance (Some (- 1)) (Some (- 2)) = Inr 0
   \<and> calculate_mystery_shopper_performance None = Inr 0
   \<and> calculate_excellence_performance (Some (- 50)) = Inr (- 1 / 2)
   \<and> calculate_behavioural_performance (Some 0) = Inr 0
   \<and> (2::real) \<noteq> 0 \<and> returns (sales_try 11 2)
   \<and> returns (wastage_try 11 0 10)
   \<and> returns (opex_try 11 10 0)
   \<and> returns (turnover_try 11 10)
   \<and> returns (mystery_shopper_try 150)
   \<and> returns (excellence_try 150)
   \<and> returns (behavioural_try 150)"
  using normalizers_total [where f = 2 and a = 11 and s = 0 and t = 10 and x = 150]
  by (simp add: sales_value_zero wastage_value calculate_opex_performance_def turnover_value
      calculate_mystery_shopper_performance_def excellence_value behavioural_value)

section \<open>Excellence check and Mystery shopper coincide\<close>

text \<open>
  C9. For every input, absent or numeric, the Excellence check normalizer and the
  Mystery shopper normalizer return exactly the same result.
\<close>

theorem excellence_eq_mystery_shopper:
  "calculate_excellence_performance x = calculate_mystery_shopper_performance x"
  by (cases x)
    (simp_all add: calculate_excellence_performance_def calculate_mystery_shopper_performance_def
      excellence_try_def mystery_shopper_try_def)

section \<open>Wastage ignores the value of the sales argument\<close>

text \<open>
  C10. For numeric actual wastage \<open>a\<close> and target \<open>t\<close>, and any two numeric sales
  values \<open>s1\<close> and \<open>s2\<close>, the wastage normalizer returns the same result: the sales
  argument matters only through its presence.
\<close>

theorem wastage_independent_of_sales:
  "calculate_wastage_performance (Some a) (Some s1) (Some t) =
   calculate_wastage_performance (Some a) (Some s2) (Some t)"
  by (simp only: calculate_wastage_performance_def option.case wastage_try_value)

end
